theory Spec2Isabelle
  imports Complex_Main "HOL-Library.Sublist"
begin

section \<open>The REST collaborator and the JavaScript runtime\<close>

text \<open>
  Both components talk to the backend through the axios instance \<open>api\<close>. A call is
  recorded as an effect with its method, its URL and its body; what the backend answers is
  an input of the handler that awaits it. \<open>alert\<close> and \<open>confirm\<close> are effects as
  well, the answer to \<open>confirm\<close> being an input.
\<close>

datatype http_method = GET | POST | PUT | DELETE

text \<open>The literal type \<open>"ACCEPT" | "REJECT"\<close> of the inbox handlers.\<close>

datatype action = ACCEPT | REJECT

text \<open>
  A JavaScript number as \<open>parseInt\<close> and \<open>parseFloat\<close> return it. The model never
  computes on such a number: it only carries it into a request body.
\<close>

datatype number = NaN | PosInfinity | NegInfinity | Finite rat

text \<open>
  The bodies the two components send: \<open>{ action }\<close>, \<open>{ requestIds, action }\<close> and
  \<open>{ recipientId, type, price, quantity, reason }\<close>; \<open>NoBody\<close> for GET and DELETE.
\<close>

datatype payload =
    NoBody
  | ProcessBody (body_action: action)
  | BulkBody (body_requestIds: "int list") (body_action: action)
  | RequestBody (body_recipientId: number) (body_type: string) (body_price: number)
      (body_quantity: number) (body_reason: string)

datatype effect =
    Api (call_method: http_method) (call_url: string) (call_body: payload)
  | Alert string
  | Confirm string

text \<open>
  The error a rejected call throws, as far as the handlers read it:
  \<open>err.response?.data?.message\<close>. Each link of the chain may be missing.
\<close>

datatype err_data = ErrData (message: "string option")
datatype err_response = ErrResponse (data: "err_data option")
datatype api_error = ApiError (response: "err_response option")

text \<open>
  \<open>err.response?.data?.message || fallback\<close>: the fallback is taken when a link of the
  chain is missing and also when the message is the empty string, which is falsy.
\<close>

definition error_message :: "api_error \<Rightarrow> string \<Rightarrow> string" where
  "error_message err fallback =
     (case response err of
        None \<Rightarrow> fallback
      | Some r \<Rightarrow>
          (case data r of
             None \<Rightarrow> fallback
           | Some d \<Rightarrow>
               (case message d of
                  None \<Rightarrow> fallback
                | Some m \<Rightarrow> if m = [] then fallback else m)))"

text \<open>
  A number inside a template literal. The ids and list lengths printed by the components
  are integers, which JavaScript prints in decimal (below \<open>10^21\<close> in magnitude).
\<close>

fun show_nat :: "nat \<Rightarrow> string" where
  "show_nat n =
     (if n < 10 then [char_of (48 + n)]
      else show_nat (n div 10) @ [char_of (48 + n mod 10)])"

declare show_nat.simps [simp del]

definition show_int :: "int \<Rightarrow> string" where
  "show_int i = (if i < 0 then CHR ''-'' # show_nat (nat (- i)) else show_nat (nat i))"

text \<open>\<open>action.toLowerCase()\<close>.\<close>

fun toLowerCase_action :: "action \<Rightarrow> string" where
  "toLowerCase_action ACCEPT = ''accept''"
| "toLowerCase_action REJECT = ''reject''"

subsection \<open>Dates\<close>

text \<open>
  The time value of a \<open>Date\<close> is a whole number of milliseconds since the epoch, at most
  \<open>8.64 * 10^15\<close> in magnitude, or \<open>NaN\<close> (an invalid date), here \<open>None\<close>.
  \<open>new Date(s)\<close> for a string parses it with \<open>Date.parse\<close>, whose accepted formats
  depend on the engine: the parser is a parameter of the model. \<open>new Date(v)\<close> for a
  number clips it to the valid range.
\<close>

type_synonym date = "int option"

definition valid_time :: "int \<Rightarrow> bool" where
  "valid_time v = (\<bar>v\<bar> \<le> 8640000000000000)"

definition TimeClip :: "int \<Rightarrow> date" where
  "TimeClip v = (if valid_time v then Some v else None)"

definition Date_of_string :: "(string \<Rightarrow> int option) \<Rightarrow> string \<Rightarrow> date" where
  "Date_of_string parse s = (case parse s of None \<Rightarrow> None | Some v \<Rightarrow> TimeClip v)"

text \<open>\<open>a < b\<close> on two dates compares their time values; it is false when one is \<open>NaN\<close>.\<close>

definition date_less :: "date \<Rightarrow> date \<Rightarrow> bool" where
  "date_less a b = (case a of None \<Rightarrow> False | Some x \<Rightarrow> (case b of None \<Rightarrow> False | Some y \<Rightarrow> x < y))"

section \<open>The requests-received view\<close>

record ReceivedRequest =
  rr_id :: int
  rr_requestorId :: int
  rr_type :: string
  rr_price :: rat
  rr_quantity :: rat
  rr_reason :: string
  rr_status :: string
  rr_created_at :: string
  rr_requestor_name :: string

text \<open>The component's state, one field for each \<open>useState\<close>.\<close>

record rr_state =
  requests :: "ReceivedRequest list"
  loading :: bool
  error :: string
  selectedIds :: "int list"
  showOverdueAlert :: bool
  overdueRequests :: "ReceivedRequest list"

definition rr_initial :: rr_state where
  "rr_initial = \<lparr>requests = [], loading = True, error = [], selectedIds = [],
     showOverdueAlert = False, overdueRequests = []\<rparr>"

text \<open>
  The filter of \<open>fetchRequests\<close>:
  \<open>new Date(req.created_at) < sevenDaysAgo\<close> with
  \<open>sevenDaysAgo = new Date(now.getTime() - 7 * 24 * 60 * 60 * 1000)\<close>.
\<close>

definition sevenDaysAgo :: "int \<Rightarrow> date" where
  "sevenDaysAgo now = TimeClip (now - 7 * 24 * 60 * 60 * 1000)"

definition overdue_filter :: "(string \<Rightarrow> int option) \<Rightarrow> int \<Rightarrow> ReceivedRequest \<Rightarrow> bool" where
  "overdue_filter parse now req =
     date_less (Date_of_string parse (rr_created_at req)) (sevenDaysAgo now)"

text \<open>
  \<open>fetchRequests\<close>: the answer of \<open>GET /requests/received\<close> and the clock are inputs.
  The \<open>if\<close> on \<open>overdue.length > 0\<close> has no \<open>else\<close>: with no overdue request the
  alert list and the alert flag keep their old values. \<open>awaiting s\<close> is the state
  the component is in, and renders, while the GET is in flight.
\<close>

definition awaiting :: "rr_state \<Rightarrow> rr_state" where
  "awaiting s = s\<lparr>loading := True\<rparr>"

definition fetchRequests ::
  "(string \<Rightarrow> int option) \<Rightarrow> int \<Rightarrow> api_error + ReceivedRequest list \<Rightarrow> rr_state
     \<Rightarrow> rr_state \<times> effect list" where
  "fetchRequests parse now res s =
     (let s1 = awaiting s;
          calls = [Api GET ''/requests/received'' NoBody]
      in case res of
           Inr res_data \<Rightarrow>
             (let s2 = s1\<lparr>requests := res_data\<rparr>;
                  overdue = filter (overdue_filter parse now) res_data;
                  s3 = (if length overdue > 0
                        then s2\<lparr>overdueRequests := overdue, showOverdueAlert := True\<rparr>
                        else s2);
                  s4 = s3\<lparr>error := []\<rparr>
              in (s4\<lparr>loading := False\<rparr>, calls))
         | Inl err \<Rightarrow>
             (s1\<lparr>error := error_message err ''Failed to fetch requests'', loading := False\<rparr>,
              calls))"

text \<open>
  \<open>isOverdue\<close>, called for every row when the table is rendered, with the clock of that
  moment. The difference of two time values and its quotient by the milliseconds of a day
  are taken exactly; a \<open>NaN\<close> date makes the quotient \<open>NaN\<close> and the comparison false.
\<close>

definition isOverdue :: "(string \<Rightarrow> int option) \<Rightarrow> int \<Rightarrow> string \<Rightarrow> bool" where
  "isOverdue parse now dateString =
     (case Date_of_string parse dateString of
        None \<Rightarrow> False
      | Some requestDate \<Rightarrow>
          (let daysDiff = (rat_of_int (now - requestDate)) / rat_of_int (1000 * 60 * 60 * 24)
           in daysDiff > 7))"

text \<open>
  \<open>handleProcessRequest\<close>: one POST; when it is answered, \<open>fetchRequests()\<close> is
  started (not awaited) and the selection is emptied. The state returned is the one reached
  when the refetch has settled: the refetch never writes \<open>selectedIds\<close>, so the order of
  the two updates does not matter, and \<open>fetchRequests\<close> catches its own failure.
\<close>

definition handleProcessRequest ::
  "(string \<Rightarrow> int option) \<Rightarrow> int \<Rightarrow> api_error + unit \<Rightarrow> api_error + ReceivedRequest list
     \<Rightarrow> int \<Rightarrow> action \<Rightarrow> rr_state \<Rightarrow> rr_state \<times> effect list" where
  "handleProcessRequest parse now post_res get_res rid act s =
     (let call = Api POST (''/requests/'' @ show_int rid @ ''/process'') (ProcessBody act)
      in case post_res of
           Inr _ \<Rightarrow>
             (let (s1, fx) = fetchRequests parse now get_res s
              in (s1\<lparr>selectedIds := []\<rparr>, call # fx))
         | Inl err \<Rightarrow>
             (s\<lparr>error := error_message err
                    (''Failed to '' @ toLowerCase_action act @ '' request'')\<rparr>,
              [call]))"

text \<open>
  The answer of \<open>POST /requests/bulk-process\<close>: the handler reads only
  \<open>res.data.results.successful.length\<close> and \<open>res.data.results.failed.length\<close>.
\<close>

record bulk_response =
  successful_length :: nat
  failed_length :: nat

definition bulk_confirm_text :: "action \<Rightarrow> nat \<Rightarrow> string" where
  "bulk_confirm_text act n =
     ''Are you sure you want to '' @ toLowerCase_action act @ '' '' @ show_nat n
       @ '' request(s)?''"

definition bulk_alert_text :: "bulk_response \<Rightarrow> string" where
  "bulk_alert_text res =
     ''Successfully processed: '' @ show_nat (successful_length res) @ [CHR 0x0A]
       @ ''Failed: '' @ show_nat (failed_length res)"

definition handleBulkProcess ::
  "(string \<Rightarrow> int option) \<Rightarrow> int \<Rightarrow> bool \<Rightarrow> api_error + bulk_response
     \<Rightarrow> api_error + ReceivedRequest list \<Rightarrow> action \<Rightarrow> rr_state \<Rightarrow> rr_state \<times> effect list" where
  "handleBulkProcess parse now confirmed post_res get_res act s =
     (if length (selectedIds s) = 0
      then (s, [Alert ''Please select at least one request''])
      else
        (let ask = Confirm (bulk_confirm_text act (length (selectedIds s)))
         in if \<not> confirmed then (s, [ask])
            else
              (let call = Api POST ''/requests/bulk-process'' (BulkBody (selectedIds s) act)
               in case post_res of
                    Inr res \<Rightarrow>
                      (let (s1, fx) = fetchRequests parse now get_res s
                       in (s1\<lparr>selectedIds := []\<rparr>,
                           [ask, call, Alert (bulk_alert_text res)] @ fx))
                  | Inl err \<Rightarrow>
                      (s\<lparr>error := error_message err ''Failed to process requests''\<rparr>,
                       [ask, call]))))"

definition handleCheckboxChange :: "int \<Rightarrow> rr_state \<Rightarrow> rr_state" where
  "handleCheckboxChange rid s =
     (let prev = selectedIds s
      in s\<lparr>selectedIds :=
             (if rid \<in> set prev then filter (\<lambda>i. i \<noteq> rid) prev else prev @ [rid])\<rparr>)"

definition handleSelectAll :: "rr_state \<Rightarrow> rr_state" where
  "handleSelectAll s =
     (if length (selectedIds s) = length (requests s)
      then s\<lparr>selectedIds := []\<rparr>
      else s\<lparr>selectedIds := map rr_id (requests s)\<rparr>)"

text \<open>The close button and the overlay of the alert: \<open>setShowOverdueAlert(false)\<close>.\<close>

definition closeOverdueAlert :: "rr_state \<Rightarrow> rr_state" where
  "closeOverdueAlert s = s\<lparr>showOverdueAlert := False\<rparr>"

text \<open>
  What the component renders, as far as the state decides it: the loading placeholder, or
  the page with the error banner (\<open>error && ...\<close>), the alert with its list
  (\<open>showOverdueAlert && ...\<close>) and one row for each request, whose class and badge come
  from \<open>isOverdue\<close> at the time of rendering.
\<close>

record rr_row =
  row_request :: ReceivedRequest
  row_className :: string
  row_badge :: bool
  row_checked :: bool

datatype rr_view =
    RRLoading
  | RRPage (error_banner: "string option") (overdue_modal: "ReceivedRequest list option")
      (table_rows: "rr_row list")

definition render_row :: "(string \<Rightarrow> int option) \<Rightarrow> int \<Rightarrow> rr_state \<Rightarrow> ReceivedRequest \<Rightarrow> rr_row" where
  "render_row parse now s request =
     \<lparr>row_request = request,
      row_className = (if isOverdue parse now (rr_created_at request) then ''overdue-row'' else []),
      row_badge = isOverdue parse now (rr_created_at request),
      row_checked = (rr_id request \<in> set (selectedIds s))\<rparr>"

definition rr_render :: "(string \<Rightarrow> int option) \<Rightarrow> int \<Rightarrow> rr_state \<Rightarrow> rr_view" where
  "rr_render parse now s =
     (if loading s then RRLoading
      else RRPage (if error s = [] then None else Some (error s))
             (if showOverdueAlert s then Some (overdueRequests s) else None)
             (map (render_row parse now s) (requests s)))"

text \<open>
  Everything that can happen to the component: the effect on mount and the handlers wired
  to its buttons and checkboxes. The environment holds what the outside world answers.
\<close>

datatype rr_event =
    Mount
  | ProcessRequest int action
  | BulkProcess action
  | CheckboxChange int
  | SelectAll
  | CloseAlert

record rr_env =
  clock :: int
  confirm_answer :: bool
  received_res :: "api_error + ReceivedRequest list"
  process_res :: "api_error + unit"
  bulk_res :: "api_error + bulk_response"

fun rr_step :: "(string \<Rightarrow> int option) \<Rightarrow> rr_env \<Rightarrow> rr_event \<Rightarrow> rr_state \<Rightarrow> rr_state \<times> effect list" where
  "rr_step parse env Mount s = fetchRequests parse (clock env) (received_res env) s"
| "rr_step parse env (ProcessRequest rid act) s =
     handleProcessRequest parse (clock env) (process_res env) (received_res env) rid act s"
| "rr_step parse env (BulkProcess act) s =
     handleBulkProcess parse (clock env) (confirm_answer env) (bulk_res env) (received_res env) act s"
| "rr_step parse env (CheckboxChange rid) s = (handleCheckboxChange rid s, [])"
| "rr_step parse env SelectAll s = (handleSelectAll s, [])"
| "rr_step parse env CloseAlert s = (closeOverdueAlert s, [])"

section \<open>The dashboard\<close>

record Balance =
  companyName :: string
  carbonBalance :: rat
  cashBalance :: rat

record Company =
  company_id :: int
  company_name :: string

record Request =
  req_id :: int
  req_recipientId :: int
  req_type :: string
  req_price :: rat
  req_quantity :: rat
  req_reason :: string
  req_status :: string
  req_created_at :: string
  req_recipient_name :: string

text \<open>The strings typed into the form.\<close>

record FormData =
  recipientId :: string
  form_type :: string
  price :: string
  quantity :: string
  reason :: string

definition default_form :: FormData where
  "default_form = \<lparr>recipientId = [], form_type = ''BUY'', price = [], quantity = [], reason = []\<rparr>"

record dash_state =
  balance :: "Balance option"
  d_requests :: "Request list"
  companies :: "Company list"
  d_loading :: bool
  d_error :: string
  showRequestForm :: bool
  editingRequest :: "Request option"
  formData :: FormData

definition dash_initial :: dash_state where
  "dash_initial = \<lparr>balance = None, d_requests = [], companies = [], d_loading = True,
     d_error = [], showRequestForm = False, editingRequest = None, formData = default_form\<rparr>"

text \<open>
  The built-ins the dashboard calls on numbers: \<open>parseInt\<close>, \<open>parseFloat\<close> and
  \<open>Number.prototype.toString\<close>. They belong to the engine and are parameters here.
\<close>

record runtime =
  parseInt :: "string \<Rightarrow> number"
  parseFloat :: "string \<Rightarrow> number"
  number_toString :: "rat \<Rightarrow> string"

subsection \<open>Promise.all over the three fetches\<close>

text \<open>
  \<open>Promise.all\<close> is fulfilled with all the values when every promise is fulfilled, and
  is rejected with the reason of the promise that is rejected first in time. The order in
  which the three calls settle is an input: a list of their positions. Positions the list
  leaves out come after it, in source order.
\<close>

fun rejection :: "api_error + 'a \<Rightarrow> api_error option" where
  "rejection (Inl e) = Some e"
| "rejection (Inr v) = None"

definition first_rejection :: "nat list \<Rightarrow> api_error option list \<Rightarrow> api_error option" where
  "first_rejection settle rs =
     (case List.map_filter (\<lambda>i. if i < length rs then rs ! i else None)
             (settle @ [0..<length rs]) of
        [] \<Rightarrow> None
      | e # es \<Rightarrow> Some e)"

definition Promise_all3 ::
  "nat list \<Rightarrow> api_error + 'a \<Rightarrow> api_error + 'b \<Rightarrow> api_error + 'c \<Rightarrow> api_error + 'a \<times> 'b \<times> 'c" where
  "Promise_all3 settle a b c =
     (case first_rejection settle [rejection a, rejection b, rejection c] of
        Some e \<Rightarrow> Inl e
      | None \<Rightarrow>
          (case a of
             Inl e \<Rightarrow> Inl e
           | Inr x \<Rightarrow>
               (case b of
                  Inl e \<Rightarrow> Inl e
                | Inr y \<Rightarrow> (case c of Inl e \<Rightarrow> Inl e | Inr z \<Rightarrow> Inr (x, y, z)))))"

subsection \<open>Handlers\<close>

text \<open>What the backend answers to the three GETs of \<open>fetchData\<close>, and in which order.\<close>

record fetch_env =
  settle_order :: "nat list"
  balance_res :: "api_error + Balance"
  made_res :: "api_error + Request list"
  list_res :: "api_error + Company list"

text \<open>\<open>d_awaiting s\<close> is the state while the three GETs are in flight.\<close>

definition d_awaiting :: "dash_state \<Rightarrow> dash_state" where
  "d_awaiting s = s\<lparr>d_loading := True\<rparr>"

definition fetchData :: "fetch_env \<Rightarrow> dash_state \<Rightarrow> dash_state \<times> effect list" where
  "fetchData env s =
     (let s1 = d_awaiting s;
          calls = [Api GET ''/company/balance'' NoBody,
                   Api GET ''/requests/made'' NoBody,
                   Api GET ''/company/list'' NoBody]
      in case Promise_all3 (settle_order env) (balance_res env) (made_res env) (list_res env) of
           Inr (balanceRes, requestsRes, companiesRes) \<Rightarrow>
             (s1\<lparr>balance := Some balanceRes, d_requests := requestsRes,
                 companies := companiesRes, d_error := [], d_loading := False\<rparr>,
              calls)
         | Inl err \<Rightarrow>
             (s1\<lparr>d_error := error_message err ''Failed to fetch data'', d_loading := False\<rparr>,
              calls))"

definition resetForm :: "dash_state \<Rightarrow> dash_state" where
  "resetForm s = s\<lparr>formData := default_form, editingRequest := None, showRequestForm := False\<rparr>"

text \<open>The body both submit handlers build from the form.\<close>

definition form_body :: "runtime \<Rightarrow> FormData \<Rightarrow> payload" where
  "form_body rt f =
     RequestBody (parseInt rt (recipientId f)) (form_type f) (parseFloat rt (price f))
       (parseFloat rt (quantity f)) (reason f)"

definition handleCreateRequest ::
  "runtime \<Rightarrow> api_error + unit \<Rightarrow> fetch_env \<Rightarrow> dash_state \<Rightarrow> dash_state \<times> effect list" where
  "handleCreateRequest rt post_res env s =
     (let call = Api POST ''/requests'' (form_body rt (formData s))
      in case post_res of
           Inr _ \<Rightarrow>
             (let (s1, fx) = fetchData env (resetForm (s\<lparr>showRequestForm := False\<rparr>))
              in (s1, call # fx))
         | Inl err \<Rightarrow>
             (s\<lparr>d_error := error_message err ''Failed to create request''\<rparr>, [call]))"

definition handleUpdateRequest ::
  "runtime \<Rightarrow> api_error + unit \<Rightarrow> fetch_env \<Rightarrow> dash_state \<Rightarrow> dash_state \<times> effect list" where
  "handleUpdateRequest rt put_res env s =
     (case editingRequest s of
        None \<Rightarrow> (s, [])
      | Some editing \<Rightarrow>
          (let call = Api PUT (''/requests/'' @ show_int (req_id editing))
                        (form_body rt (formData s))
           in case put_res of
                Inr _ \<Rightarrow>
                  (let (s1, fx) = fetchData env (resetForm (s\<lparr>editingRequest := None\<rparr>))
                   in (s1, call # fx))
              | Inl err \<Rightarrow>
                  (s\<lparr>d_error := error_message err ''Failed to update request''\<rparr>, [call])))"

definition handleDeleteRequest ::
  "bool \<Rightarrow> api_error + unit \<Rightarrow> fetch_env \<Rightarrow> int \<Rightarrow> dash_state \<Rightarrow> dash_state \<times> effect list" where
  "handleDeleteRequest confirmed delete_res env rid s =
     (let ask = Confirm ''Are you sure you want to delete this request?''
      in if \<not> confirmed then (s, [ask])
         else
           (let call = Api DELETE (''/requests/'' @ show_int rid) NoBody
            in case delete_res of
                 Inr _ \<Rightarrow> (let (s1, fx) = fetchData env s in (s1, [ask, call] @ fx))
               | Inl err \<Rightarrow>
                   (s\<lparr>d_error := error_message err ''Failed to delete request''\<rparr>,
                    [ask, call])))"

definition handleEditClick :: "runtime \<Rightarrow> Request \<Rightarrow> dash_state \<Rightarrow> dash_state" where
  "handleEditClick rt request s =
     s\<lparr>editingRequest := Some request,
       formData :=
         \<lparr>recipientId = show_int (req_recipientId request),
          form_type = req_type request,
          price = number_toString rt (req_price request),
          quantity = number_toString rt (req_quantity request),
          reason = (if req_reason request = [] then [] else req_reason request)\<rparr>,
       showRequestForm := True\<rparr>"

text \<open>
  The button in the section header: \<open>resetForm(); setShowRequestForm(!showRequestForm)\<close>,
  where \<open>showRequestForm\<close> is the value the button was rendered with.
\<close>

definition toggleRequestForm :: "dash_state \<Rightarrow> dash_state" where
  "toggleRequestForm s = (resetForm s)\<lparr>showRequestForm := \<not> showRequestForm s\<rparr>"

datatype dash_view =
    DashLoading
  | DashPage (dash_banner: "string option") (dash_form_title: "string option")
      (dash_rows: "Request list")

definition dash_render :: "dash_state \<Rightarrow> dash_view" where
  "dash_render s =
     (if d_loading s then DashLoading
      else DashPage (if d_error s = [] then None else Some (d_error s))
             (if showRequestForm s
              then Some (if editingRequest s \<noteq> None then ''Edit Request'' else ''Create New Request'')
              else None)
             (d_requests s))"

text \<open>
  Everything that can happen to the dashboard. The form's \<open>onSubmit\<close> is
  \<open>editingRequest ? handleUpdateRequest : handleCreateRequest\<close>.
\<close>

datatype dash_event =
    DashMount
  | Submit
  | DeleteClick int
  | EditClick Request
  | CancelClick
  | ToggleForm
  | ChangeRecipientId string
  | ChangeType string
  | ChangePrice string
  | ChangeQuantity string
  | ChangeReason string

record dash_env =
  fetch_answers :: fetch_env
  d_confirm_answer :: bool
  d_post_res :: "api_error + unit"
  d_put_res :: "api_error + unit"
  d_delete_res :: "api_error + unit"

fun dash_step :: "runtime \<Rightarrow> dash_env \<Rightarrow> dash_event \<Rightarrow> dash_state \<Rightarrow> dash_state \<times> effect list" where
  "dash_step rt env DashMount s = fetchData (fetch_answers env) s"
| "dash_step rt env Submit s =
     (if editingRequest s \<noteq> None
      then handleUpdateRequest rt (d_put_res env) (fetch_answers env) s
      else handleCreateRequest rt (d_post_res env) (fetch_answers env) s)"
| "dash_step rt env (DeleteClick rid) s =
     handleDeleteRequest (d_confirm_answer env) (d_delete_res env) (fetch_answers env) rid s"
| "dash_step rt env (EditClick request) s = (handleEditClick rt request s, [])"
| "dash_step rt env CancelClick s = (resetForm s, [])"
| "dash_step rt env ToggleForm s = (toggleRequestForm s, [])"
| "dash_step rt env (ChangeRecipientId v) s = (s\<lparr>formData := (formData s)\<lparr>recipientId := v\<rparr>\<rparr>, [])"
| "dash_step rt env (ChangeType v) s = (s\<lparr>formData := (formData s)\<lparr>form_type := v\<rparr>\<rparr>, [])"
| "dash_step rt env (ChangePrice v) s = (s\<lparr>formData := (formData s)\<lparr>price := v\<rparr>\<rparr>, [])"
| "dash_step rt env (ChangeQuantity v) s = (s\<lparr>formData := (formData s)\<lparr>quantity := v\<rparr>\<rparr>, [])"
| "dash_step rt env (ChangeReason v) s = (s\<lparr>formData := (formData s)\<lparr>reason := v\<rparr>\<rparr>, [])"

text \<open>The API calls among the effects of a handler, and the endpoints a URL may name.\<close>

fun api_calls :: "effect list \<Rightarrow> (http_method \<times> string \<times> payload) list" where
  "api_calls [] = []"
| "api_calls (Api m u b # fx) = (m, u, b) # api_calls fx"
| "api_calls (Alert t # fx) = api_calls fx"
| "api_calls (Confirm t # fx) = api_calls fx"

definition urls :: "effect list \<Rightarrow> string list" where
  "urls fx = map (\<lambda>(m, u, b). u) (api_calls fx)"

definition under_requests :: "string \<Rightarrow> bool" where
  "under_requests u = (u = ''/requests'' \<or> prefix ''/requests/'' u)"

definition dash_endpoint :: "string \<Rightarrow> bool" where
  "dash_endpoint u = (u = ''/company/balance'' \<or> u = ''/company/list'' \<or> under_requests u)"

section \<open>Notions the properties are stated with\<close>

text \<open>
  The time elapsed between a request's \<open>created_at\<close> and the clock, in milliseconds;
  there is none when \<open>created_at\<close> is not a date. A request is older than seven days
  when strictly more than \<open>7 * 24 * 60 * 60 * 1000\<close> milliseconds have elapsed.
\<close>

definition elapsed_ms :: "(string \<Rightarrow> int option) \<Rightarrow> int \<Rightarrow> string \<Rightarrow> int option" where
  "elapsed_ms parse now created =
     (case Date_of_string parse created of None \<Rightarrow> None | Some t \<Rightarrow> Some (now - t))"

definition older_than_7_days :: "(string \<Rightarrow> int option) \<Rightarrow> int \<Rightarrow> string \<Rightarrow> bool" where
  "older_than_7_days parse now created =
     (case elapsed_ms parse now created of
        None \<Rightarrow> False
      | Some d \<Rightarrow> 7 * 24 * 60 * 60 * 1000 < d)"

text \<open>The message field of an error response, when every link of the chain is there.\<close>

definition api_message :: "api_error \<Rightarrow> string option" where
  "api_message err =
     (case response err of
        None \<Rightarrow> None
      | Some r \<Rightarrow> (case data r of None \<Rightarrow> None | Some d \<Rightarrow> message d))"

definition with_message :: "string \<Rightarrow> api_error" where
  "with_message m = ApiError (Some (ErrResponse (Some (ErrData (Some m)))))"

definition network_error :: api_error where
  "network_error = ApiError None"

section \<open>Sample data\<close>

text \<open>
  A parser that knows four ISO timestamps, a clock at 2024-01-10T00:00:00Z, and requests
  created nine days, exactly seven days and one day before it.
\<close>

definition sample_parse :: "string \<Rightarrow> int option" where
  "sample_parse s =
     (if s = ''2024-01-01T00:00:00.000Z'' then Some 1704067200000
      else if s = ''2024-01-03T00:00:00.000Z'' then Some 1704240000000
      else if s = ''2024-01-09T00:00:00.000Z'' then Some 1704758400000
      else if s = ''2024-01-10T00:00:00.000Z'' then Some 1704844800000
      else None)"

definition sample_now :: int where
  "sample_now = 1704844800000"

definition sample_received :: "int \<Rightarrow> string \<Rightarrow> ReceivedRequest" where
  "sample_received i created =
     \<lparr>rr_id = i, rr_requestorId = 2, rr_type = ''BUY'', rr_price = 25, rr_quantity = 10,
      rr_reason = ''offset'', rr_status = ''PENDING'', rr_created_at = created,
      rr_requestor_name = ''Acme''\<rparr>"

definition old_request :: ReceivedRequest where
  "old_request = sample_received 1 ''2024-01-01T00:00:00.000Z''"

definition week_old_request :: ReceivedRequest where
  "week_old_request = sample_received 2 ''2024-01-03T00:00:00.000Z''"

definition fresh_request :: ReceivedRequest where
  "fresh_request = sample_received 3 ''2024-01-09T00:00:00.000Z''"

definition undated_request :: ReceivedRequest where
  "undated_request = sample_received 4 ''yesterday''"

definition sample_runtime :: runtime where
  "sample_runtime =
     \<lparr>parseInt = (\<lambda>s. if s = ''7'' then Finite 7 else NaN),
      parseFloat = (\<lambda>s. if s = ''12.5'' then Finite (25 / 2) else if s = ''3'' then Finite 3 else NaN),
      number_toString = (\<lambda>q. if q = 25 / 2 then ''12.5'' else if q = 3 then ''3'' else ''0'')\<rparr>"

definition sample_balance :: Balance where
  "sample_balance = \<lparr>companyName = ''Acme'', carbonBalance = 100, cashBalance = 5000\<rparr>"

definition sample_request :: Request where
  "sample_request =
     \<lparr>req_id = 42, req_recipientId = 7, req_type = ''SELL'', req_price = 25 / 2, req_quantity = 3,
      req_reason = ''surplus'', req_status = ''PENDING'',
      req_created_at = ''2024-01-09T00:00:00.000Z'', req_recipient_name = ''Globex''\<rparr>"

definition sample_company :: Company where
  "sample_company = \<lparr>company_id = 7, company_name = ''Globex''\<rparr>"

definition sample_form :: FormData where
  "sample_form = \<lparr>recipientId = ''7'', form_type = ''SELL'', price = ''12.5'', quantity = ''3'',
     reason = ''surplus''\<rparr>"

definition all_fulfilled :: fetch_env where
  "all_fulfilled = \<lparr>settle_order = [0, 1, 2], balance_res = Inr sample_balance,
     made_res = Inr [sample_request], list_res = Inr [sample_company]\<rparr>"

definition list_rejected :: fetch_env where
  "list_rejected = \<lparr>settle_order = [2, 0, 1], balance_res = Inr sample_balance,
     made_res = Inr [sample_request], list_res = Inl (with_message ''Unauthorized'')\<rparr>"

definition sample_inbox :: rr_state where
  "sample_inbox = \<lparr>requests = [old_request, fresh_request], loading = False, error = [],
     selectedIds = [1], showOverdueAlert = False, overdueRequests = []\<rparr>"

definition sample_rr_env :: rr_env where
  "sample_rr_env = \<lparr>clock = sample_now, confirm_answer = True,
     received_res = Inr [fresh_request], process_res = Inr (),
     bulk_res = Inr \<lparr>successful_length = 1, failed_length = 0\<rparr>\<rparr>"

definition sample_dash_env :: dash_env where
  "sample_dash_env = \<lparr>fetch_answers = all_fulfilled, d_confirm_answer = True,
     d_post_res = Inr (), d_put_res = Inr (), d_delete_res = Inr ()\<rparr>"

definition sample_creating :: dash_state where
  "sample_creating = \<lparr>balance = Some sample_balance, d_requests = [sample_request],
     companies = [sample_company], d_loading = False, d_error = [], showRequestForm = True,
     editingRequest = None, formData = sample_form\<rparr>"

definition sample_editing :: dash_state where
  "sample_editing = sample_creating\<lparr>editingRequest := Some sample_request\<rparr>"

section \<open>Facts about the handlers\<close>

subsection \<open>Overdue requests\<close>

lemma isOverdue_iff: "isOverdue parse now created = older_than_7_days parse now created"
  by (simp add: isOverdue_def older_than_7_days_def elapsed_ms_def Let_def split: option.splits)

lemma overdue_filter_iff:
  "valid_time now \<Longrightarrow>
   overdue_filter parse now req = older_than_7_days parse now (rr_created_at req)"
  by (auto simp: overdue_filter_def older_than_7_days_def elapsed_ms_def sevenDaysAgo_def
      date_less_def Date_of_string_def TimeClip_def valid_time_def split: option.splits if_splits)

lemma valid_sample_now: "valid_time sample_now"
  by (simp add: valid_time_def sample_now_def)

lemma sample_ages:
  "older_than_7_days sample_parse sample_now (rr_created_at old_request)"
  "\<not> older_than_7_days sample_parse sample_now (rr_created_at week_old_request)"
  "\<not> older_than_7_days sample_parse sample_now (rr_created_at fresh_request)"
  "\<not> older_than_7_days sample_parse sample_now (rr_created_at undated_request)"
  by (simp_all add: older_than_7_days_def elapsed_ms_def Date_of_string_def TimeClip_def
      valid_time_def sample_parse_def sample_now_def old_request_def week_old_request_def
      fresh_request_def undated_request_def sample_received_def)

subsection \<open>The inbox handlers, outcome by outcome\<close>

lemma fetchRequests_Inr:
  "fetchRequests parse now (Inr fetched) s =
     (let overdue = filter (overdue_filter parse now) fetched
      in (s\<lparr>requests := fetched,
            overdueRequests := (if overdue = [] then overdueRequests s else overdue),
            showOverdueAlert := (overdue \<noteq> [] \<or> showOverdueAlert s),
            error := [], loading := False\<rparr>,
          [Api GET ''/requests/received'' NoBody]))"
  by (simp add: fetchRequests_def awaiting_def Let_def)

lemma fetchRequests_Inl:
  "fetchRequests parse now (Inl e) s =
     (s\<lparr>error := error_message e ''Failed to fetch requests'', loading := False\<rparr>,
      [Api GET ''/requests/received'' NoBody])"
  by (simp add: fetchRequests_def awaiting_def Let_def)

lemma fetchRequests_effects:
  "snd (fetchRequests parse now res s) = [Api GET ''/requests/received'' NoBody]"
  by (cases res) (simp_all add: fetchRequests_Inr fetchRequests_Inl Let_def)

lemma fetchRequests_loading: "\<not> loading (fst (fetchRequests parse now res s))"
  by (cases res) (simp_all add: fetchRequests_Inr fetchRequests_Inl Let_def)

lemma handleProcessRequest_Inr:
  "handleProcessRequest parse now (Inr u) get_res rid act s =
     ((fst (fetchRequests parse now get_res s))\<lparr>selectedIds := []\<rparr>,
      [Api POST (''/requests/'' @ show_int rid @ ''/process'') (ProcessBody act),
       Api GET ''/requests/received'' NoBody])"
  using fetchRequests_effects [of parse now get_res s]
  by (auto simp: handleProcessRequest_def Let_def split: prod.splits)

lemma handleProcessRequest_Inl:
  "handleProcessRequest parse now (Inl e) get_res rid act s =
     (s\<lparr>error := error_message e (''Failed to '' @ toLowerCase_action act @ '' request'')\<rparr>,
      [Api POST (''/requests/'' @ show_int rid @ ''/process'') (ProcessBody act)])"
  by (simp add: handleProcessRequest_def Let_def)

lemma handleBulkProcess_Inr:
  "selectedIds s \<noteq> [] \<Longrightarrow>
   handleBulkProcess parse now True (Inr res) get_res act s =
     ((fst (fetchRequests parse now get_res s))\<lparr>selectedIds := []\<rparr>,
      [Confirm (bulk_confirm_text act (length (selectedIds s))),
       Api POST ''/requests/bulk-process'' (BulkBody (selectedIds s) act),
       Alert (bulk_alert_text res),
       Api GET ''/requests/received'' NoBody])"
  using fetchRequests_effects [of parse now get_res s]
  by (auto simp: handleBulkProcess_def Let_def split: prod.splits)

lemma handleBulkProcess_Inl:
  "selectedIds s \<noteq> [] \<Longrightarrow>
   handleBulkProcess parse now True (Inl e) get_res act s =
     (s\<lparr>error := error_message e ''Failed to process requests''\<rparr>,
      [Confirm (bulk_confirm_text act (length (selectedIds s))),
       Api POST ''/requests/bulk-process'' (BulkBody (selectedIds s) act)])"
  by (simp add: handleBulkProcess_def Let_def)

lemma handleBulkProcess_skip:
  "selectedIds s = [] \<or> \<not> confirmed \<Longrightarrow>
   fst (handleBulkProcess parse now confirmed res get_res act s) = s
   \<and> api_calls (snd (handleBulkProcess parse now confirmed res get_res act s)) = []"
  by (auto simp: handleBulkProcess_def Let_def)

subsection \<open>Promise.all and the dashboard handlers, outcome by outcome\<close>

lemma first_rejection_None:
  assumes "\<forall>r \<in> set rs. r = None"
  shows "first_rejection settle rs = None"
proof -
  have "filter (\<lambda>i. (if i < length rs then rs ! i else None) \<noteq> None) js = []" for js
    using assms by (induction js) auto
  then show ?thesis
    by (simp add: first_rejection_def List.map_filter_def)
qed

lemma first_rejection_mem:
  assumes "first_rejection settle rs = Some e"
  shows "Some e \<in> set rs"
proof -
  let ?picked = "List.map_filter (\<lambda>i. if i < length rs then rs ! i else None)
                   (settle @ [0..<length rs])"
  from assms obtain es where "?picked = e # es"
    by (auto simp: first_rejection_def split: list.splits)
  then have "e \<in> set ?picked" by simp
  then show ?thesis
    by (auto simp: List.map_filter_def in_set_conv_nth split: if_splits)
qed

lemma Promise_all3_fulfilled: "Promise_all3 settle (Inr x) (Inr y) (Inr z) = Inr (x, y, z)"
  by (simp add: Promise_all3_def first_rejection_None)

lemma Promise_all3_rejected:
  "Promise_all3 settle a b c = Inl e \<Longrightarrow> Some e \<in> {rejection a, rejection b, rejection c}"
  by (cases a; cases b; cases c)
     (auto simp: Promise_all3_def split: option.splits dest: first_rejection_mem)

lemma Promise_all3_Inl_iff:
  "(\<exists>e. Promise_all3 settle a b c = Inl e)
     \<longleftrightarrow> (\<exists>e. a = Inl e) \<or> (\<exists>e. b = Inl e) \<or> (\<exists>e. c = Inl e)"
proof (cases "Promise_all3 settle a b c")
  case (Inl e)
  then have "Some e \<in> {rejection a, rejection b, rejection c}"
    by (rule Promise_all3_rejected)
  with Inl show ?thesis
    by (cases a; cases b; cases c) auto
next
  case (Inr t)
  then show ?thesis
    by (cases a; cases b; cases c) (auto simp: Promise_all3_def split: option.splits)
qed

lemma fetchData_fulfilled:
  "Promise_all3 (settle_order env) (balance_res env) (made_res env) (list_res env) = Inr (b, r, c) \<Longrightarrow>
   fetchData env s =
     (s\<lparr>balance := Some b, d_requests := r, companies := c, d_error := [], d_loading := False\<rparr>,
      [Api GET ''/company/balance'' NoBody, Api GET ''/requests/made'' NoBody,
       Api GET ''/company/list'' NoBody])"
  by (simp add: fetchData_def d_awaiting_def Let_def)

lemma fetchData_rejected:
  "Promise_all3 (settle_order env) (balance_res env) (made_res env) (list_res env) = Inl e \<Longrightarrow>
   fetchData env s =
     (s\<lparr>d_error := error_message e ''Failed to fetch data'', d_loading := False\<rparr>,
      [Api GET ''/company/balance'' NoBody, Api GET ''/requests/made'' NoBody,
       Api GET ''/company/list'' NoBody])"
  by (simp add: fetchData_def d_awaiting_def Let_def)

lemma fetchData_effects:
  "snd (fetchData env s) =
     [Api GET ''/company/balance'' NoBody, Api GET ''/requests/made'' NoBody,
      Api GET ''/company/list'' NoBody]"
  by (simp add: fetchData_def Let_def split: sum.splits prod.splits)

lemma fetchData_form:
  "formData (fst (fetchData env s)) = formData s
   \<and> showRequestForm (fst (fetchData env s)) = showRequestForm s
   \<and> editingRequest (fst (fetchData env s)) = editingRequest s"
  by (simp add: fetchData_def d_awaiting_def Let_def split: sum.splits prod.splits)

lemma fetchData_loading: "\<not> d_loading (fst (fetchData env s))"
  by (simp add: fetchData_def d_awaiting_def Let_def split: sum.splits prod.splits)

lemma resetForm_fields:
  "formData (fst (fetchData env (resetForm s))) = default_form
   \<and> \<not> showRequestForm (fst (fetchData env (resetForm s)))
   \<and> editingRequest (fst (fetchData env (resetForm s))) = None"
  by (simp add: fetchData_form resetForm_def)

lemma handleCreateRequest_Inr:
  "handleCreateRequest rt (Inr u) env s =
     (fst (fetchData env (resetForm s)),
      [Api POST ''/requests'' (form_body rt (formData s)),
       Api GET ''/company/balance'' NoBody, Api GET ''/requests/made'' NoBody,
       Api GET ''/company/list'' NoBody])"
  using fetchData_effects [of env "resetForm s"]
  by (auto simp: handleCreateRequest_def resetForm_def Let_def split: prod.splits)

lemma handleCreateRequest_Inl:
  "handleCreateRequest rt (Inl e) env s =
     (s\<lparr>d_error := error_message e ''Failed to create request''\<rparr>,
      [Api POST ''/requests'' (form_body rt (formData s))])"
  by (simp add: handleCreateRequest_def Let_def)

lemma handleUpdateRequest_None:
  "editingRequest s = None \<Longrightarrow> handleUpdateRequest rt res env s = (s, [])"
  by (simp add: handleUpdateRequest_def)

lemma handleUpdateRequest_Inr:
  "editingRequest s = Some editing \<Longrightarrow>
   handleUpdateRequest rt (Inr u) env s =
     (fst (fetchData env (resetForm s)),
      [Api PUT (''/requests/'' @ show_int (req_id editing)) (form_body rt (formData s)),
       Api GET ''/company/balance'' NoBody, Api GET ''/requests/made'' NoBody,
       Api GET ''/company/list'' NoBody])"
  using fetchData_effects [of env "resetForm s"]
  by (auto simp: handleUpdateRequest_def resetForm_def Let_def split: prod.splits)

lemma handleUpdateRequest_Inl:
  "editingRequest s = Some editing \<Longrightarrow>
   handleUpdateRequest rt (Inl e) env s =
     (s\<lparr>d_error := error_message e ''Failed to update request''\<rparr>,
      [Api PUT (''/requests/'' @ show_int (req_id editing)) (form_body rt (formData s))])"
  by (simp add: handleUpdateRequest_def Let_def)

lemma handleDeleteRequest_Inr:
  "handleDeleteRequest True (Inr u) env rid s =
     (fst (fetchData env s),
      [Confirm ''Are you sure you want to delete this request?'',
       Api DELETE (''/requests/'' @ show_int rid) NoBody,
       Api GET ''/company/balance'' NoBody, Api GET ''/requests/made'' NoBody,
       Api GET ''/company/list'' NoBody])"
  using fetchData_effects [of env s]
  by (auto simp: handleDeleteRequest_def Let_def split: prod.splits)

lemma handleDeleteRequest_Inl:
  "handleDeleteRequest True (Inl e) env rid s =
     (s\<lparr>d_error := error_message e ''Failed to delete request''\<rparr>,
      [Confirm ''Are you sure you want to delete this request?'',
       Api DELETE (''/requests/'' @ show_int rid) NoBody])"
  by (simp add: handleDeleteRequest_def Let_def)

lemma handleDeleteRequest_declined:
  "handleDeleteRequest False res env rid s =
     (s, [Confirm ''Are you sure you want to delete this request?''])"
  by (simp add: handleDeleteRequest_def Let_def)

lemma sample_rejection:
  "Promise_all3 (settle_order list_rejected) (balance_res list_rejected)
     (made_res list_rejected) (list_res list_rejected) = Inl (with_message ''Unauthorized'')"
  by (simp add: Promise_all3_def first_rejection_def list_rejected_def List.map_filter_simps)

lemma sample_fulfilment:
  "Promise_all3 (settle_order all_fulfilled) (balance_res all_fulfilled)
     (made_res all_fulfilled) (list_res all_fulfilled)
     = Inr (sample_balance, [sample_request], [sample_company])"
  by (simp add: all_fulfilled_def Promise_all3_fulfilled)

lemma error_message_with_message:
  "m \<noteq> [] \<Longrightarrow> error_message (with_message m) fallback = m"
  by (simp add: error_message_def with_message_def)

subsection \<open>The URLs a step can call\<close>

lemma under_requests_Cons [simp]:
  "under_requests (CHR ''/'' # CHR ''r'' # CHR ''e'' # CHR ''q'' # CHR ''u'' # CHR ''e'' # CHR ''s''
      # CHR ''t'' # CHR ''s'' # CHR ''/'' # x)"
  by (simp add: under_requests_def)

lemma under_requests_root [simp]: "under_requests ''/requests''"
  by (simp add: under_requests_def)

lemma dash_endpoint_simps [simp]:
  "dash_endpoint ''/company/balance''" "dash_endpoint ''/company/list''"
  "under_requests u \<Longrightarrow> dash_endpoint u"
  by (simp_all add: dash_endpoint_def)

lemma urls_simps [simp]:
  "urls [] = []"
  "urls (Api m u b # fx) = u # urls fx"
  "urls (Alert t # fx) = urls fx"
  "urls (Confirm t # fx) = urls fx"
  by (simp_all add: urls_def)

lemma bulk_urls:
  "list_all under_requests
     (urls (snd (handleBulkProcess parse now confirmed res get_res act s)))"
proof (cases "selectedIds s = [] \<or> \<not> confirmed")
  case True
  then show ?thesis
    by (auto simp: handleBulkProcess_def Let_def)
next
  case False
  then show ?thesis
    by (cases res) (simp_all add: handleBulkProcess_Inr handleBulkProcess_Inl)
qed

lemma rr_urls: "list_all under_requests (urls (snd (rr_step parse env ev s)))"
proof (cases ev)
  case Mount
  then show ?thesis by (simp add: fetchRequests_effects)
next
  case (ProcessRequest rid act)
  then show ?thesis
    by (cases "process_res env")
       (simp_all add: handleProcessRequest_Inr handleProcessRequest_Inl)
next
  case (BulkProcess act)
  then show ?thesis by (simp add: bulk_urls)
next
  case (CheckboxChange rid)
  then show ?thesis by simp
next
  case SelectAll
  then show ?thesis by simp
next
  case CloseAlert
  then show ?thesis by simp
qed

lemma submit_urls: "list_all dash_endpoint (urls (snd (dash_step rt env Submit s)))"
proof (cases "editingRequest s")
  case None
  then show ?thesis
    by (cases "d_post_res env") (simp_all add: handleCreateRequest_Inr handleCreateRequest_Inl)
next
  case (Some editing)
  then show ?thesis
    by (cases "d_put_res env") (simp_all add: handleUpdateRequest_Inr handleUpdateRequest_Inl)
qed

lemma delete_urls:
  "list_all dash_endpoint (urls (snd (dash_step rt env (DeleteClick rid) s)))"
proof (cases "d_confirm_answer env")
  case False
  then show ?thesis by (simp add: handleDeleteRequest_declined)
next
  case True
  then show ?thesis
    by (cases "d_delete_res env") (simp_all add: handleDeleteRequest_Inr handleDeleteRequest_Inl)
qed

lemma dash_urls: "list_all dash_endpoint (urls (snd (dash_step rt env ev s)))"
proof (cases ev)
  case DashMount
  then show ?thesis by (simp add: fetchData_effects)
next
  case Submit
  then show ?thesis by (simp only: submit_urls)
next
  case (DeleteClick rid)
  then show ?thesis by (simp only: delete_urls)
qed simp_all

section \<open>The properties\<close>

subsection \<open>The two overdue predicates\<close>

text \<open>
  Claim C3. With the same clock, the filter that builds the alert list in
  \<open>fetchRequests\<close> (the creation date strictly before the clock minus
  \<open>7 * 24 * 60 * 60 * 1000\<close> ms) and \<open>isOverdue\<close>, which highlights the rows (the
  elapsed time divided by the milliseconds of a day strictly above 7), hold for the same
  requests. The clock is a valid time value, as that of \<open>new Date()\<close> is.
\<close>

theorem overdue_predicates_agree:
  "valid_time now \<Longrightarrow>
   overdue_filter parse now req = isOverdue parse now (rr_created_at req)"
  by (simp add: overdue_filter_iff isOverdue_iff)

theorem overdue_predicates_agree_witness:
  "valid_time sample_now
   \<and> overdue_filter sample_parse sample_now old_request
   \<and> isOverdue sample_parse sample_now (rr_created_at old_request)
   \<and> \<not> overdue_filter sample_parse sample_now week_old_request
   \<and> \<not> isOverdue sample_parse sample_now (rr_created_at week_old_request)
   \<and> \<not> overdue_filter sample_parse sample_now undated_request
   \<and> \<not> isOverdue sample_parse sample_now (rr_created_at undated_request)"
  using valid_sample_now sample_ages
    overdue_predicates_agree [OF valid_sample_now, of sample_parse old_request]
    overdue_predicates_agree [OF valid_sample_now, of sample_parse week_old_request]
    overdue_predicates_agree [OF valid_sample_now, of sample_parse undated_request]
  by (simp add: isOverdue_iff)

subsection \<open>The selection\<close>

text \<open>
  Claim C8. \<open>handleCheckboxChange(id)\<close> flips the membership of \<open>id\<close> in
  \<open>selectedIds\<close> and of nothing else: when \<open>id\<close> is selected every occurrence of it is
  removed, otherwise it is appended at the end. Applied twice, it gives back a selection
  with the members of the original one, whether that one was free of duplicates or not.
\<close>

theorem handleCheckboxChange_flips:
  "(rid \<in> set (selectedIds s) \<longrightarrow>
      selectedIds (handleCheckboxChange rid s) = filter (\<lambda>i. i \<noteq> rid) (selectedIds s)
      \<and> rid \<notin> set (selectedIds (handleCheckboxChange rid s)))
   \<and> (rid \<notin> set (selectedIds s) \<longrightarrow>
      selectedIds (handleCheckboxChange rid s) = selectedIds s @ [rid]
      \<and> rid \<in> set (selectedIds (handleCheckboxChange rid s)))
   \<and> (\<forall>j. j \<noteq> rid \<longrightarrow>
        (j \<in> set (selectedIds (handleCheckboxChange rid s)) \<longleftrightarrow> j \<in> set (selectedIds s)))
   \<and> set (selectedIds (handleCheckboxChange rid (handleCheckboxChange rid s)))
       = set (selectedIds s)"
  by (auto simp: handleCheckboxChange_def Let_def)

theorem handleCheckboxChange_flips_witness:
  "selectedIds (handleCheckboxChange 1 (sample_inbox\<lparr>selectedIds := [1, 3, 1]\<rparr>)) = [3]
   \<and> selectedIds (handleCheckboxChange 3 sample_inbox) = [1, 3]
   \<and> set (selectedIds (handleCheckboxChange 3 (handleCheckboxChange 3 sample_inbox))) = {1}"
  using handleCheckboxChange_flips [of 1 "sample_inbox\<lparr>selectedIds := [1, 3, 1]\<rparr>"]
    handleCheckboxChange_flips [of 3 sample_inbox]
  by (simp add: sample_inbox_def)

text \<open>
  Claim C9. After \<open>handleSelectAll\<close> the selection is empty when it had as many entries
  as there are displayed requests, and otherwise it is the ids of all displayed requests
  in table order: all or nothing.
\<close>

theorem handleSelectAll_all_or_nothing:
  "(length (selectedIds s) = length (requests s) \<longrightarrow> selectedIds (handleSelectAll s) = [])
   \<and> (length (selectedIds s) \<noteq> length (requests s) \<longrightarrow>
        selectedIds (handleSelectAll s) = map rr_id (requests s))
   \<and> (selectedIds (handleSelectAll s) = []
        \<or> selectedIds (handleSelectAll s) = map rr_id (requests s))
   \<and> requests (handleSelectAll s) = requests s"
  by (simp add: handleSelectAll_def)

theorem handleSelectAll_all_or_nothing_witness:
  "selectedIds (handleSelectAll sample_inbox) = [1, 3]
   \<and> selectedIds (handleSelectAll (handleSelectAll sample_inbox)) = []"
  using handleSelectAll_all_or_nothing [of sample_inbox]
    handleSelectAll_all_or_nothing [of "handleSelectAll sample_inbox"]
  by (simp add: sample_inbox_def old_request_def fresh_request_def sample_received_def)

text \<open>
  Claim C10. With an empty selection, and also when the user declines the confirmation,
  \<open>handleBulkProcess\<close> calls no endpoint and leaves the whole state as it was.
\<close>

theorem handleBulkProcess_nothing_to_do:
  "selectedIds s = [] \<or> \<not> confirmed \<Longrightarrow>
   fst (handleBulkProcess parse now confirmed res get_res act s) = s
   \<and> api_calls (snd (handleBulkProcess parse now confirmed res get_res act s)) = []"
  by (rule handleBulkProcess_skip)

theorem handleBulkProcess_nothing_to_do_witness:
  "selectedIds rr_initial = []
   \<and> fst (handleBulkProcess sample_parse sample_now True (bulk_res sample_rr_env)
            (received_res sample_rr_env) ACCEPT rr_initial) = rr_initial
   \<and> api_calls (snd (handleBulkProcess sample_parse sample_now True (bulk_res sample_rr_env)
            (received_res sample_rr_env) ACCEPT rr_initial)) = []
   \<and> selectedIds sample_inbox = [1]
   \<and> fst (handleBulkProcess sample_parse sample_now False (bulk_res sample_rr_env)
            (received_res sample_rr_env) REJECT sample_inbox) = sample_inbox
   \<and> api_calls (snd (handleBulkProcess sample_parse sample_now False (bulk_res sample_rr_env)
            (received_res sample_rr_env) REJECT sample_inbox)) = []"
proof -
  have e: "selectedIds rr_initial = []" by (simp add: rr_initial_def)
  have n: "selectedIds sample_inbox = [1]" by (simp add: sample_inbox_def)
  from e have 1: "selectedIds rr_initial = [] \<or> \<not> True" by simp
  have 2: "selectedIds sample_inbox = [] \<or> \<not> False" by simp
  show ?thesis
    using e n
      handleBulkProcess_nothing_to_do [OF 1, of sample_parse sample_now
        "bulk_res sample_rr_env" "received_res sample_rr_env" ACCEPT]
      handleBulkProcess_nothing_to_do [OF 2, of sample_parse sample_now
        "bulk_res sample_rr_env" "received_res sample_rr_env" REJECT]
    by simp
qed

end
